theory Spec2Isabelle
  imports Complex_Main "HOL-Library.Word"
begin

section \<open>Webhook signature validation (src/client/validateSignature.js)\<close>

text \<open>
  The module imports \<^verbatim>\<open>crypto\<close> (Node's library) and \<^verbatim>\<open>validate\<close> (the repository's
  \<^verbatim>\<open>util/validate\<close>) and exports the class \<^verbatim>\<open>ValidateSignature\<close>. A request body is a
  sequence of bytes, a secret and a header value are strings.
\<close>

type_synonym bytes = "8 word list"

text \<open>
  What a call can throw: \<^verbatim>\<open>new Error(message)\<close>, the \<^verbatim>\<open>ReferenceError\<close> of an identifier
  that is bound nowhere, and the error of \<^verbatim>\<open>validate.notNull\<close>, which the specification calls
  \<^verbatim>\<open>ConfigurationError\<close>.
\<close>

datatype error =
    Error string
  | ReferenceError string
  | ConfigurationError

text \<open>
  The specification's \<^verbatim>\<open>InvalidSignatureError\<close> is the error the source throws at line 20:
  \<^verbatim>\<open>throw new Error('Invalid signature')\<close>.
\<close>

definition InvalidSignatureError :: error where
  "InvalidSignatureError = Error ''Invalid signature''"

text \<open>
  The host the module runs on. \<^verbatim>\<open>createHmac algorithm key data\<close> is the digest that
  \<^verbatim>\<open>crypto.createHmac(algorithm, key).update(data).digest()\<close> produces; \<^verbatim>\<open>globals\<close> lists the
  names that the global object binds (to a value usable where the module uses the name).
  Both belong to Node, not to the repository, so every theorem below holds for whatever
  they are.
\<close>

record host =
  createHmac :: "string \<Rightarrow> string \<Rightarrow> bytes \<Rightarrow> bytes"
  globals :: "string list"

text \<open>The globals of a plain Node process: there is no \<^verbatim>\<open>log\<close> among them.\<close>

definition node_globals :: "string list" where
  "node_globals =
     [''global'', ''globalThis'', ''process'', ''console'', ''Buffer'', ''require'',
      ''module'', ''exports'', ''__filename'', ''__dirname'', ''setTimeout'',
      ''clearTimeout'', ''setInterval'', ''clearInterval'', ''setImmediate'',
      ''clearImmediate'', ''queueMicrotask'', ''URL'', ''URLSearchParams'',
      ''TextEncoder'', ''TextDecoder'']"

text \<open>The names the module itself binds: its two imports and its class (lines 1, 2, 5).\<close>

definition module_bindings :: "string list" where
  "module_bindings = [''crypto'', ''validate'', ''ValidateSignature'']"

text \<open>
  An identifier is looked up in the module's scope, then on the global object; module code
  is strict, so a name found in neither throws a \<^verbatim>\<open>ReferenceError\<close> when it is evaluated.
\<close>

definition resolves :: "host \<Rightarrow> string \<Rightarrow> bool" where
  "resolves h x = (x \<in> set module_bindings \<or> x \<in> set (globals h))"

text \<open>\<^verbatim>\<open>digest('hex')\<close>: two lowercase hexadecimal digits per byte, the high nibble first.\<close>

definition hex_digit :: "nat \<Rightarrow> char" where
  "hex_digit n = ''0123456789abcdef'' ! (n mod 16)"

definition hex_byte :: "8 word \<Rightarrow> string" where
  "hex_byte w = [hex_digit (unat w div 16), hex_digit (unat w mod 16)]"

definition hex :: "bytes \<Rightarrow> string" where
  "hex ws = concat (map hex_byte ws)"

text \<open>The instance: its only field is the secret (line 8).\<close>

record ValidateSignature =
  appSecret :: string

text \<open>
  Modelled from the spec: \<^verbatim>\<open>validate.notNull\<close> of \<^verbatim>\<open>util/validate\<close>, which is not among the
  sources. The specification's construction contract: construction "fails with a
  ConfigurationError if the secret is absent or empty". \<open>None\<close> is an absent
  (\<^verbatim>\<open>null\<close> or \<^verbatim>\<open>undefined\<close>) argument; the checked value is handed back.
\<close>

definition notNull :: "string option \<Rightarrow> error + string" where
  "notNull item =
     (case item of
        None \<Rightarrow> Inl ConfigurationError
      | Some s \<Rightarrow> if s = [] then Inl ConfigurationError else Inr s)"

text \<open>Lines 6 to 10: the check, then the assignment of the field.\<close>

definition constructor :: "string option \<Rightarrow> error + ValidateSignature" where
  "constructor secret =
     (case notNull secret of
        Inl e \<Rightarrow> Inl e
      | Inr s \<Rightarrow> Inr \<lparr>appSecret = s\<rparr>)"

text \<open>
  A request is its \<^verbatim>\<open>get\<close> method: the value of a header, \<open>None\<close> (\<^verbatim>\<open>undefined\<close>) when the
  request has no such header.
\<close>

type_synonym request = "string \<Rightarrow> string option"

text \<open>\<^verbatim>\<open>!expected\<close>: \<^verbatim>\<open>undefined\<close> and the empty string are the falsy values of a header.\<close>

definition falsy :: "string option \<Rightarrow> bool" where
  "falsy e = (case e of None \<Rightarrow> True | Some s \<Rightarrow> s = [])"

text \<open>Lines 14 to 17: the signature the method computes for a body.\<close>

definition computed_signature :: "host \<Rightarrow> ValidateSignature \<Rightarrow> bytes \<Rightarrow> string" where
  "computed_signature h this buffer =
     ''sha1='' @ hex (createHmac h ''sha1'' (appSecret this) buffer)"

text \<open>
  Lines 12 to 25. The method returns the instance as the call leaves it together with
  \<open>Inr ()\<close> for a normal return or \<open>Inl\<close> the error thrown. The \<^verbatim>\<open>response\<close> argument is
  not used. In the \<^verbatim>\<open>else\<close> branch the identifier \<^verbatim>\<open>log\<close> is evaluated, which the module
  neither imports nor declares.
\<close>

definition validate ::
  "host \<Rightarrow> ValidateSignature \<Rightarrow> request \<Rightarrow> 'r \<Rightarrow> bytes \<Rightarrow> ValidateSignature \<times> (error + unit)"
where
  "validate h this req response buffer =
     (let expected = req ''X-Hub-Signature'';
          computed = computed_signature h this buffer
      in if falsy expected \<or> expected \<noteq> Some computed
         then (this, Inl (Error ''Invalid signature''))
         else if resolves h ''log''
              then (this, Inr ())
              else (this, Inl (ReferenceError ''log'')))"

text \<open>A request whose only header is the signature header with the given value.\<close>

definition signed_request :: "string \<Rightarrow> request" where
  "signed_request s = (\<lambda>name. if name = ''X-Hub-Signature'' then Some s else None)"

text \<open>What the application does with a secret and a request: construct, then validate.\<close>

definition construct_and_validate ::
  "host \<Rightarrow> string option \<Rightarrow> request \<Rightarrow> 'r \<Rightarrow> bytes \<Rightarrow> error + unit"
where
  "construct_and_validate h secret req response buffer =
     (case constructor secret of
        Inl e \<Rightarrow> Inl e
      | Inr v \<Rightarrow> snd (validate h v req response buffer))"

subsection \<open>The specification's concrete scenario\<close>

text \<open>
  Secret \<^verbatim>\<open>abc123\<close>, body \<^verbatim>\<open>{"test":"true"}\<close> (fifteen bytes), and the HMAC-SHA1 digest of
  that body under that key, \<^verbatim>\<open>b2b40d50d212156383cff67951dc36b60069ebcc\<close>: the fixed value
  the specification asks to hard-code as the test oracle.
\<close>

definition scenario_body :: bytes where
  "scenario_body =
     [0x7B, 0x22, 0x74, 0x65, 0x73, 0x74, 0x22, 0x3A, 0x22, 0x74, 0x72, 0x75, 0x65, 0x22, 0x7D]"

definition scenario_digest :: bytes where
  "scenario_digest =
     [0xB2, 0xB4, 0x0D, 0x50, 0xD2, 0x12, 0x15, 0x63, 0x83, 0xCF,
      0xF6, 0x79, 0x51, 0xDC, 0x36, 0xB6, 0x00, 0x69, 0xEB, 0xCC]"

text \<open>
  A plain Node process as far as the scenario needs it: \<^verbatim>\<open>createHmac\<close> answers with the
  digest above at the scenario's key and body (it is not asked anything else), and the
  globals are Node's.
\<close>

definition scenario_host :: host where
  "scenario_host =
     \<lparr>createHmac = (\<lambda>algorithm key data.
         if algorithm = ''sha1'' \<and> key = ''abc123'' \<and> data = scenario_body
         then scenario_digest else []),
      globals = node_globals\<rparr>"

definition scenario_signature :: string where
  "scenario_signature = ''sha1=b2b40d50d212156383cff67951dc36b60069ebcc''"

section \<open>The platform client (class \<^verbatim>\<open>Client\<close>)\<close>

text \<open>
  A parsed JSON value, as \<^verbatim>\<open>resp.json()\<close> resolves with it. An object is the list of its
  own properties; a number is a rational (every finite double is one).
\<close>

datatype json =
    JNull
  | JBool bool
  | JNum rat
  | JStr string
  | JArr "json list"
  | JObj "(string \<times> json) list"

text \<open>
  The own property \<open>k\<close> of a parsed value, for a name \<open>k\<close> that is neither \<^verbatim>\<open>length\<close> nor
  an index (the client reads \<^verbatim>\<open>hasOwnProperty\<close>, \<^verbatim>\<open>error\<close> and \<^verbatim>\<open>message\<close>): only an
  object has one. Nothing that a parsed value inherits is named \<^verbatim>\<open>error\<close> or \<^verbatim>\<open>message\<close>.
\<close>

fun own :: "json \<Rightarrow> string \<Rightarrow> json option" where
  "own (JObj kvs) k = map_of kvs k"
| "own _ k = None"

text \<open>
  The ways the engine raises a \<^verbatim>\<open>TypeError\<close> here: a property read from \<^verbatim>\<open>null\<close> or
  \<^verbatim>\<open>undefined\<close>, a call of what is not a function, and \<^verbatim>\<open>Object.keys\<close> of \<^verbatim>\<open>null\<close> or
  \<^verbatim>\<open>undefined\<close>.
\<close>

datatype type_error =
    PropertyOfNull
  | NotAFunction
  | NullToObject

text \<open>
  The argument of \<^verbatim>\<open>new Error(...)\<close> at line 51, the \<^verbatim>\<open>message\<close> of what was caught:
  \<^verbatim>\<open>undefined\<close>, a parsed value, the message of an engine's \<^verbatim>\<open>TypeError\<close>, or the message
  of a failure of the transport.
\<close>

datatype message =
    Undefined
  | Of json
  | OfTypeError type_error
  | Text string

text \<open>
  What reaches the \<^verbatim>\<open>catch\<close> of line 49: the \<^verbatim>\<open>error\<close> property of the response
  (line 45), a \<^verbatim>\<open>TypeError\<close> raised while the handler of line 43 runs, or the rejection of
  \<^verbatim>\<open>fetch\<close> or of \<^verbatim>\<open>resp.json()\<close> with its message.
\<close>

datatype raised =
    Item_error json
  | Engine type_error
  | Fetch string

text \<open>
  What the client's methods throw or reject with: a \<^verbatim>\<open>TypeError\<close>, the \<^verbatim>\<open>new Error(...)\<close> of
  line 51, or the error of \<^verbatim>\<open>validate.oneOf\<close>.
\<close>

datatype thrown =
    TypeError type_error
  | NewError message
  | ValidationError

datatype 'a promise =
    Resolved 'a
  | Rejected thrown

text \<open>The arguments of the calls of \<^verbatim>\<open>log.error\<close>, in order.\<close>

datatype entry =
    Logged_raised raised
  | Logged_thrown thrown

text \<open>
  What \<^verbatim>\<open>fetch(url, fetchOptions).then(resp => resp.json())\<close> settles with: a failure (of
  the transport, or a body that is not JSON) with its message, or the parsed body.
\<close>

datatype fetched =
    Failed string
  | Body json

text \<open>
  A string the client builds, kept as its pieces: a literal, \<^verbatim>\<open>JSON.stringify\<close> of a
  value, or a property value interpolated into a template (\<open>None\<close> is \<^verbatim>\<open>undefined\<close>).
\<close>

datatype piece =
    Lit string
  | Stringified json
  | Interpolated "json option"

type_synonym built = "piece list"

record fetchOptions =
  http_method :: string
  headers :: "(string \<times> string) list"
  body :: "built option"
  agent :: "string option"

text \<open>
  What the client module takes from outside: \<^verbatim>\<open>fetch\<close> and the remote end behind it;
  \<^verbatim>\<open>validate.oneOf\<close>, which is not among the sources (\<open>oneOf item allowed\<close> holds when the
  call returns, and the call throws otherwise); and the class \<^verbatim>\<open>MessengerProfile\<close>, its name
  and its \<^verbatim>\<open>validProperties()\<close>.
\<close>

record platform =
  fetch :: "built \<Rightarrow> fetchOptions \<Rightarrow> fetched"
  oneOf :: "string \<Rightarrow> string list \<Rightarrow> bool"
  MessengerProfile_name :: string
  validProperties :: "string list"

text \<open>
  The instance. \<^verbatim>\<open>messenger_profile\<close> holds whatever value was assigned to it; it is not set
  by the constructor, and \<open>None\<close> is \<^verbatim>\<open>undefined\<close>. The proxy agent is the
  \<^verbatim>\<open>hostname:port\<close> it was made from.
\<close>

record Client =
  baseURL :: string
  pageAccessToken :: string
  proxyAgent :: "string option"
  messenger_profile :: "json option"

text \<open>
  A profile argument that is not \<^verbatim>\<open>null\<close> or \<^verbatim>\<open>undefined\<close>, by what the method does with it.
  \<open>constructor_name\<close> is the evaluation of \<^verbatim>\<open>profile.constructor.name\<close>: the name, or what is
  thrown (an object without a constructor). \<open>toObject\<close> is the call \<^verbatim>\<open>profile.toObject()\<close>:
  the value returned (\<open>None\<close> is \<^verbatim>\<open>undefined\<close>), or what is thrown, by the method or by the
  engine when the argument has no such method. The check of line 147 looks at the name
  alone, so an argument that passes it need not be an instance of the repository's class.
\<close>

record profile =
  constructor_name :: "thrown + string"
  toObject :: "thrown + json option"

text \<open>The decimal numeral of a number: the property name of an index.\<close>

fun decimal :: "nat \<Rightarrow> string" where
  "decimal n =
     (if n < 10 then [''0123456789'' ! n]
      else decimal (n div 10) @ [''0123456789'' ! (n mod 10)])"

declare decimal.simps [simp del]

text \<open>
  \<^verbatim>\<open>Object.keys\<close>: the names of the own properties of an object, the indices of an array or
  of a string (as a list of code units), nothing for a number or a boolean; \<^verbatim>\<open>null\<close> and
  \<^verbatim>\<open>undefined\<close> cannot be converted to an object.
\<close>

fun keys :: "json option \<Rightarrow> thrown + string list" where
  "keys None = Inl (TypeError NullToObject)"
| "keys (Some JNull) = Inl (TypeError NullToObject)"
| "keys (Some (JObj kvs)) = Inr (map fst kvs)"
| "keys (Some (JArr xs)) = Inr (map decimal [0..<length xs])"
| "keys (Some (JStr s)) = Inr (map decimal [0..<length s])"
| "keys (Some (JBool b)) = Inr []"
| "keys (Some (JNum x)) = Inr []"

text \<open>
  Lines 43 to 48, the handler of the parsed body. \<^verbatim>\<open>item.hasOwnProperty\<close> cannot be read
  from \<^verbatim>\<open>null\<close>, and is not a function when the object has a property of that name of its
  own (a parsed value is never a function).
\<close>

definition on_item :: "json \<Rightarrow> raised + json" where
  "on_item item =
     (if item = JNull then Inl (Engine PropertyOfNull)
      else case own item ''hasOwnProperty'' of
             Some f \<Rightarrow> Inl (Engine NotAFunction)
           | None \<Rightarrow>
               (case own item ''error'' of
                  Some err \<Rightarrow> Inl (Item_error err)
                | None \<Rightarrow> Inr item))"

text \<open>\<^verbatim>\<open>error.message\<close> of a parsed value that is not \<^verbatim>\<open>null\<close>.\<close>

definition error_message :: "json \<Rightarrow> message" where
  "error_message err = (case own err ''message'' of None \<Rightarrow> Undefined | Some v \<Rightarrow> Of v)"

text \<open>
  Lines 49 to 52, after the logging: \<^verbatim>\<open>throw new Error(error.message)\<close>. Reading
  \<^verbatim>\<open>message\<close> from \<^verbatim>\<open>null\<close> throws a \<^verbatim>\<open>TypeError\<close> instead.
\<close>

fun on_catch :: "raised \<Rightarrow> thrown" where
  "on_catch (Item_error err) =
     (if err = JNull then TypeError PropertyOfNull else NewError (error_message err))"
| "on_catch (Engine t) = NewError (OfTypeError t)"
| "on_catch (Fetch m) = NewError (Text m)"

text \<open>Lines 41 to 52: the chain on what the fetch settled with, and what was logged.\<close>

definition settle :: "fetched \<Rightarrow> json promise \<times> entry list" where
  "settle f =
     (case (case f of Failed m \<Rightarrow> Inl (Fetch m) | Body item \<Rightarrow> on_item item) of
        Inl e \<Rightarrow> (Rejected (on_catch e), [Logged_raised e])
      | Inr item \<Rightarrow> (Resolved item, []))"

text \<open>Lines 38 to 53. The defaults of \<^verbatim>\<open>body\<close> and \<^verbatim>\<open>method\<close> are written out by the callers.\<close>

definition proxyFetchFacebook ::
  "platform \<Rightarrow> Client \<Rightarrow> built \<Rightarrow> built option \<Rightarrow> string \<Rightarrow> json promise \<times> entry list"
where
  "proxyFetchFacebook p this url b m =
     settle (fetch p url
       \<lparr>http_method = m, headers = [(''Content-Type'', ''application/json'')],
        body = b, agent = proxyAgent this\<rparr>)"

text \<open>
  The \<^verbatim>\<open>catch\<close> the callers append: log the error and reject with it again. (The
  \<^verbatim>\<open>then\<close> of \<^verbatim>\<open>getMessengerProfile\<close> resolves with what it is given.)
\<close>

definition relog :: "json promise \<times> entry list \<Rightarrow> json promise \<times> entry list" where
  "relog r =
     (case fst r of
        Resolved v \<Rightarrow> r
      | Rejected e \<Rightarrow> (Rejected e, snd r @ [Logged_thrown e]))"

text \<open>
  Lines 146 to 153, statement by statement; \<open>fields_flag\<close> is the parameter \<^verbatim>\<open>fields\<close>. The
  result is the instance as the call leaves it, and \<open>Inl\<close> what was thrown.

  Line 147: \<^verbatim>\<open>profile.constructor\<close> cannot be read from an absent profile; then the name is
  evaluated and checked. Line 148: \<^verbatim>\<open>profile.toObject()\<close> is called, and the field is
  assigned only if the call returns. Lines 149 to 151: the keys of the value now in the
  field are checked one by one.
\<close>

definition validateMessengerProfile ::
  "platform \<Rightarrow> Client \<Rightarrow> profile option \<Rightarrow> bool \<Rightarrow> Client \<times> (thrown + unit)"
where
  "validateMessengerProfile p this prof fields_flag =
     (case prof of
        None \<Rightarrow> (this, Inl (TypeError PropertyOfNull))
      | Some pr \<Rightarrow>
          (case constructor_name pr of
             Inl e \<Rightarrow> (this, Inl e)
           | Inr name \<Rightarrow>
               if \<not> oneOf p name [MessengerProfile_name p]
               then (this, Inl ValidationError)
               else
                 (case toObject pr of
                    Inl e \<Rightarrow> (this, Inl e)
                  | Inr v \<Rightarrow>
                      (let this' = this\<lparr>messenger_profile := v\<rparr>
                       in case keys (messenger_profile this') of
                            Inl e \<Rightarrow> (this', Inl e)
                          | Inr ks \<Rightarrow>
                              if list_all
                                   (\<lambda>key. oneOf p key
                                      (if fields_flag then [''fields''] else validProperties p))
                                   ks
                              then (this', Inr ())
                              else (this', Inl ValidationError)))))"

text \<open>
  The three operations on the profile (lines 155 to 181). Each returns the instance as the
  call leaves it, and either what the call threw before any request or the promise it
  returned. \<^verbatim>\<open>JSON.stringify(undefined)\<close> is \<^verbatim>\<open>undefined\<close>; \<^verbatim>\<open>fields\<close> cannot be read from a
  field that holds \<^verbatim>\<open>null\<close> or \<^verbatim>\<open>undefined\<close>.
\<close>

definition setMessengerProfile ::
  "platform \<Rightarrow> Client \<Rightarrow> profile option \<Rightarrow> Client \<times> (thrown + json promise \<times> entry list)"
where
  "setMessengerProfile p this prof =
     (case validateMessengerProfile p this prof False of
        (this', Inl e) \<Rightarrow> (this', Inl e)
      | (this', Inr u) \<Rightarrow>
          (this', Inr (relog (proxyFetchFacebook p this'
             [Lit (baseURL this'), Lit ''/me/messenger_profile?access_token='',
              Lit (pageAccessToken this')]
             (map_option (\<lambda>v. [Stringified v]) (messenger_profile this'))
             ''POST''))))"

definition getMessengerProfile ::
  "platform \<Rightarrow> Client \<Rightarrow> profile option \<Rightarrow> Client \<times> (thrown + json promise \<times> entry list)"
where
  "getMessengerProfile p this prof =
     (case validateMessengerProfile p this prof True of
        (this', Inl e) \<Rightarrow> (this', Inl e)
      | (this', Inr u) \<Rightarrow>
          (case messenger_profile this' of
             None \<Rightarrow> (this', Inl (TypeError PropertyOfNull))
           | Some v \<Rightarrow>
               if v = JNull then (this', Inl (TypeError PropertyOfNull))
               else
                 (this', Inr (relog (proxyFetchFacebook p this'
                    [Lit (baseURL this'), Lit ''/me/messenger_profile?fields='',
                     Interpolated (own v ''fields''), Lit ''&access_token='',
                     Lit (pageAccessToken this')]
                    None ''GET'')))))"

definition deleteMessengerProfile ::
  "platform \<Rightarrow> Client \<Rightarrow> profile option \<Rightarrow> Client \<times> (thrown + json promise \<times> entry list)"
where
  "deleteMessengerProfile p this prof =
     (case validateMessengerProfile p this prof True of
        (this', Inl e) \<Rightarrow> (this', Inl e)
      | (this', Inr u) \<Rightarrow>
          (this', Inr (relog (proxyFetchFacebook p this'
             [Lit (baseURL this'), Lit ''/me/messenger_profile?access_token='',
              Lit (pageAccessToken this')]
             (map_option (\<lambda>v. [Stringified v]) (messenger_profile this'))
             ''DELETE''))))"

subsection \<open>An example platform\<close>

text \<open>
  A remote end that answers every request with \<open>r\<close>; \<^verbatim>\<open>validate.oneOf\<close> as membership in
  the list; the class under its own name.
\<close>

definition answering :: "fetched \<Rightarrow> platform" where
  "answering r =
     \<lparr>fetch = (\<lambda>url options. r),
      oneOf = (\<lambda>item allowed. item \<in> set allowed),
      MessengerProfile_name = ''MessengerProfile'',
      validProperties = [''get_started'', ''greeting'', ''persistent_menu'',
                         ''whitelisted_domains'', ''account_linking_url'']\<rparr>"

text \<open>A client as its constructor leaves it: no proxy, and no profile yet.\<close>

definition fresh_client :: Client where
  "fresh_client =
     \<lparr>baseURL = ''https://graph.facebook.com/v2.8'', pageAccessToken = ''TOKEN'',
      proxyAgent = None, messenger_profile = None\<rparr>"

text \<open>The platform's answer to a request with a bad token.\<close>

definition oauth_error :: json where
  "oauth_error =
     JObj [(''message'', JStr ''Invalid OAuth access token.''),
           (''type'', JStr ''OAuthException''), (''code'', JNum 190)]"

text \<open>A profile of the repository's class that asks for the greeting.\<close>

definition greeting_fields :: profile where
  "greeting_fields =
     \<lparr>constructor_name = Inr ''MessengerProfile'',
      toObject = Inr (Some (JObj [(''fields'', JArr [JStr ''greeting''])]))\<rparr>"

text \<open>
  Arguments that are not such a profile: a plain object \<^verbatim>\<open>{}\<close>, which has no
  \<^verbatim>\<open>toObject\<close>; an object without a prototype, which has no \<^verbatim>\<open>constructor\<close> either; and an
  instance of another class that is also named \<^verbatim>\<open>MessengerProfile\<close> and has no
  \<^verbatim>\<open>toObject\<close> method.
\<close>

definition plain_object :: profile where
  "plain_object =
     \<lparr>constructor_name = Inr ''Object'', toObject = Inl (TypeError NotAFunction)\<rparr>"

definition bare_object :: profile where
  "bare_object =
     \<lparr>constructor_name = Inl (TypeError PropertyOfNull),
      toObject = Inl (TypeError NotAFunction)\<rparr>"

definition namesake :: profile where
  "namesake =
     \<lparr>constructor_name = Inr ''MessengerProfile'', toObject = Inl (TypeError NotAFunction)\<rparr>"

section \<open>Facts about the hexadecimal encoding\<close>

lemma hex_digit_lower: "hex_digit n \<in> set ''0123456789abcdef''"
proof -
  have "n mod 16 < length ''0123456789abcdef''" by simp
  then show ?thesis unfolding hex_digit_def by (rule nth_mem)
qed

lemma hex_lower: "set (hex ws) \<subseteq> set ''0123456789abcdef''"
proof (induction ws)
  case Nil
  show ?case by (simp add: hex_def)
next
  case (Cons w ws)
  have "set (hex_byte w) \<subseteq> set ''0123456789abcdef''"
    unfolding hex_byte_def using hex_digit_lower by simp
  with Cons show ?case by (simp add: hex_def)
qed

lemma length_hex: "length (hex ws) = 2 * length ws"
  by (induction ws) (simp_all add: hex_def hex_byte_def)


lemma scenario_computed:
  "computed_signature scenario_host \<lparr>appSecret = ''abc123''\<rparr> scenario_body = scenario_signature"
  by (simp add: computed_signature_def scenario_host_def scenario_digest_def
      scenario_signature_def hex_def hex_byte_def hex_digit_def)

section \<open>Facts about \<^verbatim>\<open>validate\<close>\<close>

lemma computed_signature_nonempty: "computed_signature h v B \<noteq> []"
  by (simp add: computed_signature_def)

lemma validate_state: "fst (validate h v req r B) = v"
  by (simp add: validate_def Let_def)

lemma validate_result:
  "snd (validate h v req r B) =
     (if req ''X-Hub-Signature'' = Some (computed_signature h v B)
      then (if resolves h ''log'' then Inr () else Inl (ReferenceError ''log''))
      else Inl InvalidSignatureError)"
  by (auto simp add: validate_def Let_def falsy_def InvalidSignatureError_def
      computed_signature_nonempty split: option.splits)

lemma log_unbound_node: "globals h = node_globals \<Longrightarrow> \<not> resolves h ''log''"
  by (simp add: resolves_def module_bindings_def node_globals_def)

lemma equals_not_in_hex: "CHR ''='' \<notin> set (hex ws)"
  using hex_lower [of ws] by auto

lemma prefix_is_sha1:
  assumes "alg @ ''='' @ d = ''sha1='' @ hex ws"
  shows "alg = ''sha1''"
proof -
  let ?P = "\<lambda>c. c \<noteq> CHR ''=''"
  have "takeWhile ?P (alg @ ''='' @ d) = takeWhile ?P alg"
    by (induction alg) simp_all
  moreover have "takeWhile ?P (''sha1='' @ hex ws) = ''sha1''" by simp
  ultimately have tw: "takeWhile ?P alg = ''sha1''" using assms by simp
  show ?thesis
  proof (cases "dropWhile ?P alg")
    case Nil
    then have "takeWhile ?P alg = alg"
      by (metis append_Nil2 takeWhile_dropWhile_id)
    with tw show ?thesis by simp
  next
    case (Cons c rest)
    then have "c = CHR ''=''" using hd_dropWhile [of ?P alg] by force
    with Cons tw have "alg = ''sha1='' @ rest"
      using takeWhile_dropWhile_id [of ?P alg] by simp
    with assms have "rest @ ''='' @ d = hex ws" by simp
    then have "CHR ''='' \<in> set (hex ws)" by (metis in_set_conv_decomp append_Cons append_Nil)
    with equals_not_in_hex show ?thesis by blast
  qed
qed

text \<open>The encoding is injective: different digests have different signatures.\<close>

lemma hex_digit_inj:
  assumes "a < 16" and "b < 16" and "hex_digit a = hex_digit b"
  shows "a = b"
proof -
  have d: "distinct ''0123456789abcdef''" by simp
  have l: "length ''0123456789abcdef'' = 16" by simp
  from assms have "''0123456789abcdef'' ! a = ''0123456789abcdef'' ! b"
    by (simp add: hex_digit_def)
  with d l assms(1,2) show ?thesis
    by (metis nth_eq_iff_index_eq)
qed

lemma hex_byte_inj:
  assumes "hex_byte w = hex_byte w'"
  shows "w = w'"
proof -
  have lt: "unat w < 256" "unat w' < 256"
    using unsigned_less [of w] unsigned_less [of w'] by simp_all
  then have "unat w div 16 < 16" "unat w' div 16 < 16" by simp_all
  moreover have "unat w mod 16 < 16" "unat w' mod 16 < 16" by simp_all
  ultimately have "unat w div 16 = unat w' div 16" "unat w mod 16 = unat w' mod 16"
    using assms hex_digit_inj unfolding hex_byte_def by blast+
  then have "unat w = unat w'"
    by (metis div_mult_mod_eq)
  then show ?thesis by (rule word_unat_eq_iff [THEN iffD2])
qed

lemma hex_Cons: "hex (w # ws) = hex_byte w @ hex ws"
  by (simp add: hex_def)

lemma hex_inj: "hex ws = hex ws' \<Longrightarrow> ws = ws'"
proof (induction ws arbitrary: ws')
  case Nil
  then show ?case
    by (cases ws') (simp_all add: hex_def hex_byte_def)
next
  case (Cons w ws)
  show ?case
  proof (cases ws')
    case Nil
    with Cons.prems show ?thesis by (simp add: hex_def hex_byte_def)
  next
    case (Cons w' vs)
    with Cons.prems have "hex_byte w @ hex ws = hex_byte w' @ hex vs"
      by (simp add: hex_Cons)
    moreover have "length (hex_byte w) = length (hex_byte w')"
      by (simp add: hex_byte_def)
    ultimately have "hex_byte w = hex_byte w'" and "hex ws = hex vs" by simp_all
    with Cons.IH hex_byte_inj \<open>ws' = w' # vs\<close> show ?thesis by blast
  qed
qed

text \<open>
  A declared signature made from any digest but the computed one is rejected as invalid;
  the signature computed for another body is rejected exactly when the digests of the two
  bodies differ, which is a matter of \<^verbatim>\<open>createHmac\<close> alone.
\<close>

lemma validate_other_digest:
  "(snd (validate h v (signed_request (''sha1='' @ hex d)) r B) = Inl InvalidSignatureError)
     = (d \<noteq> createHmac h ''sha1'' (appSecret v) B)"
  using hex_inj [of d "createHmac h ''sha1'' (appSecret v) B"]
  by (auto simp add: validate_result signed_request_def computed_signature_def
      InvalidSignatureError_def)

lemma validate_other_body:
  "(snd (validate h v (signed_request (computed_signature h v B')) r B) = Inl InvalidSignatureError)
     = (createHmac h ''sha1'' (appSecret v) B' \<noteq> createHmac h ''sha1'' (appSecret v) B)"
  using validate_other_digest [of h v "createHmac h ''sha1'' (appSecret v) B'" r B]
  by (simp add: computed_signature_def)

section \<open>The claims about the signature verifier\<close>

text \<open>
  Claim C1: for every non-empty secret and every body, validating the body against the
  signature computed for it, on a verifier constructed with that secret, returns normally.
  The code does not: the branch taken when the signatures match evaluates \<^verbatim>\<open>log.debug\<close>
  (line 23), and the module binds no \<^verbatim>\<open>log\<close> (the client module imports it from
  \<^verbatim>\<open>util/logger\<close>; this one does not). On a plain Node process the call throws a
  \<^verbatim>\<open>ReferenceError\<close>, for every non-empty secret and every body.
\<close>

theorem validate_own_signature_throws:
  assumes "S \<noteq> []" and "globals h = node_globals"
  shows "construct_and_validate h (Some S)
           (signed_request (computed_signature h \<lparr>appSecret = S\<rparr> B)) r B
         = Inl (ReferenceError ''log'')"
  using assms
  by (simp add: construct_and_validate_def constructor_def notNull_def validate_result
      signed_request_def log_unbound_node)

text \<open>The same at the specification's scenario.\<close>

theorem validate_own_signature_throws_scenario:
  "''abc123'' \<noteq> [] \<and> globals scenario_host = node_globals \<and>
   construct_and_validate scenario_host (Some ''abc123'')
     (signed_request scenario_signature) () scenario_body = Inl (ReferenceError ''log'')"
  using validate_own_signature_throws [of "''abc123''" scenario_host scenario_body "()"]
    scenario_computed
  by (simp add: scenario_host_def)

text \<open>
  Claim C2: the computed signature is \<^verbatim>\<open>sha1=\<close> followed by the lowercase hexadecimal
  HMAC-SHA1 digest of the raw body under the secret, and the method succeeds exactly when
  the declared signature is that string. The first half holds. The second fails by the
  missing \<^verbatim>\<open>log\<close> of claim C1: on a plain Node process the method throws whatever the
  header is, a \<^verbatim>\<open>ReferenceError\<close> when the header is the computed string and the
  invalid-signature error otherwise.
\<close>

theorem validate_outcome_node:
  assumes "globals h = node_globals"
  shows "computed_signature h v B = ''sha1='' @ hex (createHmac h ''sha1'' (appSecret v) B)
       \<and> set (hex (createHmac h ''sha1'' (appSecret v) B)) \<subseteq> set ''0123456789abcdef''
       \<and> snd (validate h v req r B) =
           (if req ''X-Hub-Signature'' = Some (computed_signature h v B)
            then Inl (ReferenceError ''log'') else Inl InvalidSignatureError)"
  using assms hex_lower [of "createHmac h ''sha1'' (appSecret v) B"]
  by (simp add: validate_result log_unbound_node computed_signature_def)

text \<open>At the scenario: the right signature and the all-zero one.\<close>

theorem validate_outcome_node_scenario:
  "globals scenario_host = node_globals \<and>
   snd (validate scenario_host \<lparr>appSecret = ''abc123''\<rparr> (signed_request scenario_signature) ()
          scenario_body) = Inl (ReferenceError ''log'') \<and>
   snd (validate scenario_host \<lparr>appSecret = ''abc123''\<rparr>
          (signed_request ''sha1=0000000000000000000000000000000000000000'') ()
          scenario_body) = Inl InvalidSignatureError"
  using validate_outcome_node [of scenario_host "\<lparr>appSecret = ''abc123''\<rparr>" scenario_body
      "signed_request scenario_signature" "()"]
    validate_outcome_node [of scenario_host "\<lparr>appSecret = ''abc123''\<rparr>" scenario_body
      "signed_request ''sha1=0000000000000000000000000000000000000000''" "()"]
    scenario_computed
  by (simp add: scenario_host_def signed_request_def scenario_signature_def)

text \<open>
  Claim C9: exactly one declared signature is accepted, the canonical string, whatever the
  header's algorithm prefix. The method rejects as an invalid signature every header but
  the canonical string, and the prefix of the header is never read; but on a plain Node
  process it accepts no header at all, the canonical one throwing the \<^verbatim>\<open>ReferenceError\<close>
  of claim C1.
\<close>

theorem validate_accepts_nothing_node:
  assumes "globals h = node_globals"
  shows "snd (validate h v req r B) \<noteq> Inr ()
       \<and> (snd (validate h v req r B) = Inl InvalidSignatureError) =
           (req ''X-Hub-Signature'' \<noteq> Some (computed_signature h v B))"
  using assms
  by (simp add: validate_result log_unbound_node InvalidSignatureError_def)

text \<open>At the scenario, the canonical header is neither accepted nor rejected as invalid.\<close>

theorem validate_accepts_nothing_node_scenario:
  "globals scenario_host = node_globals \<and>
   snd (validate scenario_host \<lparr>appSecret = ''abc123''\<rparr> (signed_request scenario_signature) ()
          scenario_body) \<noteq> Inr () \<and>
   snd (validate scenario_host \<lparr>appSecret = ''abc123''\<rparr> (signed_request scenario_signature) ()
          scenario_body) \<noteq> Inl InvalidSignatureError"
  using validate_accepts_nothing_node [of scenario_host "\<lparr>appSecret = ''abc123''\<rparr>"
      "signed_request scenario_signature" "()" scenario_body]
    scenario_computed
  by (simp add: scenario_host_def signed_request_def)

text \<open>
  Claim C4: the method fails with the invalid-signature error when the signature header is
  missing, when it is the empty string, and when it has the form \<^verbatim>\<open>algorithm=digest\<close> with
  an algorithm other than \<^verbatim>\<open>sha1\<close>, the only one the code supports.
\<close>

theorem validate_rejects_bad_header:
  assumes "req ''X-Hub-Signature'' = None
         \<or> req ''X-Hub-Signature'' = Some []
         \<or> (\<exists>alg d. req ''X-Hub-Signature'' = Some (alg @ ''='' @ d) \<and> alg \<noteq> ''sha1'')"
  shows "snd (validate h v req r B) = Inl InvalidSignatureError"
proof -
  have "req ''X-Hub-Signature'' \<noteq> Some (computed_signature h v B)"
    using assms computed_signature_nonempty [of h v B] prefix_is_sha1
    by (auto simp add: computed_signature_def)
  then show ?thesis by (simp add: validate_result)
qed

text \<open>No header, an empty header, and a \<^verbatim>\<open>sha256\<close> header carrying the right digest.\<close>

theorem validate_rejects_bad_header_scenario:
  "snd (validate scenario_host \<lparr>appSecret = ''abc123''\<rparr> (\<lambda>name. None) () scenario_body)
     = Inl InvalidSignatureError
   \<and> snd (validate scenario_host \<lparr>appSecret = ''abc123''\<rparr> (signed_request []) () scenario_body)
     = Inl InvalidSignatureError
   \<and> snd (validate scenario_host \<lparr>appSecret = ''abc123''\<rparr>
       (signed_request (''sha256'' @ ''='' @ ''b2b40d50d212156383cff67951dc36b60069ebcc'')) ()
       scenario_body) = Inl InvalidSignatureError"
proof -
  have a: "snd (validate scenario_host \<lparr>appSecret = ''abc123''\<rparr> (\<lambda>name. None) () scenario_body)
     = Inl InvalidSignatureError"
    by (rule validate_rejects_bad_header) simp
  have b: "snd (validate scenario_host \<lparr>appSecret = ''abc123''\<rparr> (signed_request []) ()
     scenario_body) = Inl InvalidSignatureError"
    by (rule validate_rejects_bad_header) (simp add: signed_request_def)
  have "\<exists>alg d. signed_request (''sha256'' @ ''='' @ ''b2b40d50d212156383cff67951dc36b60069ebcc'')
           ''X-Hub-Signature'' = Some (alg @ ''='' @ d) \<and> alg \<noteq> ''sha1''"
    unfolding signed_request_def
    by (rule exI [of _ "''sha256''"], rule exI [of _ "''b2b40d50d212156383cff67951dc36b60069ebcc''"]) simp
  then have c: "snd (validate scenario_host \<lparr>appSecret = ''abc123''\<rparr>
       (signed_request (''sha256'' @ ''='' @ ''b2b40d50d212156383cff67951dc36b60069ebcc'')) ()
       scenario_body) = Inl InvalidSignatureError"
    by (intro validate_rejects_bad_header disjI2)
  from a b c show ?thesis by blast
qed

text \<open>
  Claim C5: constructing a verifier with an absent or an empty secret fails with the
  configuration error, and then no validation takes place: constructing and validating
  ends with that error whatever the request is.
\<close>

theorem constructor_rejects_missing_secret:
  assumes "secret = None \<or> secret = Some []"
  shows "constructor secret = Inl ConfigurationError
       \<and> construct_and_validate h secret req r B = Inl ConfigurationError"
  using assms by (auto simp add: constructor_def notNull_def construct_and_validate_def)

text \<open>An absent and an empty secret, with the scenario's request.\<close>

theorem constructor_rejects_missing_secret_scenario:
  "constructor None = Inl ConfigurationError
   \<and> constructor (Some []) = Inl ConfigurationError
   \<and> construct_and_validate scenario_host None (signed_request scenario_signature) ()
        scenario_body = Inl ConfigurationError
   \<and> construct_and_validate scenario_host (Some []) (signed_request scenario_signature) ()
        scenario_body = Inl ConfigurationError"
  using constructor_rejects_missing_secret [of None scenario_host
      "signed_request scenario_signature" "()" scenario_body]
    constructor_rejects_missing_secret [of "Some []" scenario_host
      "signed_request scenario_signature" "()" scenario_body]
  by simp

text \<open>
  Claim C7: a call of the method leaves the instance as it was, its secret included,
  whether it returns or throws, and a second call with the same arguments on the instance
  the first one left gives the same result.
\<close>

theorem validate_stateless:
  "fst (validate h v req r B) = v
   \<and> appSecret (fst (validate h v req r B)) = appSecret v
   \<and> validate h (fst (validate h v req r B)) req r B = validate h v req r B"
  by (simp add: validate_state)

text \<open>Two calls in a row at the scenario.\<close>

theorem validate_stateless_scenario:
  "validate scenario_host
     (fst (validate scenario_host \<lparr>appSecret = ''abc123''\<rparr> (signed_request scenario_signature) ()
        scenario_body))
     (signed_request scenario_signature) () scenario_body
   = (\<lparr>appSecret = ''abc123''\<rparr>, Inl (ReferenceError ''log''))"
  using validate_stateless [of scenario_host "\<lparr>appSecret = ''abc123''\<rparr>"
      "signed_request scenario_signature" "()" scenario_body]
    scenario_computed
  by (simp add: validate_def Let_def falsy_def signed_request_def resolves_def
      module_bindings_def scenario_host_def node_globals_def scenario_signature_def)

section \<open>Facts about the client\<close>

lemma settle_body:
  "fst (settle (Body item)) =
     (case on_item item of Inl e \<Rightarrow> Rejected (on_catch e) | Inr v \<Rightarrow> Resolved v)"
  by (simp add: settle_def split: sum.splits)

section \<open>The claims about the client\<close>

text \<open>
  Claim C8, as amended. The claim: when the parsed body has an \<^verbatim>\<open>error\<close> field the promise
  rejects with that error, and otherwise it resolves with the parsed object. The code
  rejects, and never resolves, whenever the parsed value has an \<^verbatim>\<open>error\<close> property of its
  own; but the rejection value is not the error object: the \<^verbatim>\<open>catch\<close> of line 49 replaces
  it by \<^verbatim>\<open>new Error(error.message)\<close>, which keeps the message alone (when the property is
  not \<^verbatim>\<open>null\<close> and the object has no \<^verbatim>\<open>hasOwnProperty\<close> property of its own). A parsed
  value that is not \<^verbatim>\<open>null\<close> and has neither an \<^verbatim>\<open>error\<close> nor a \<^verbatim>\<open>hasOwnProperty\<close> property
  of its own is what the promise resolves with.
\<close>

theorem proxyFetchFacebook_on_body:
  assumes "fetch p url
             \<lparr>http_method = m, headers = [(''Content-Type'', ''application/json'')],
              body = b, agent = proxyAgent this\<rparr> = Body item"
  shows "(\<forall>err. own item ''error'' = Some err \<longrightarrow>
            (\<exists>t. fst (proxyFetchFacebook p this url b m) = Rejected t))
       \<and> (\<forall>err. own item ''error'' = Some err \<and> err \<noteq> JNull
                 \<and> own item ''hasOwnProperty'' = None \<longrightarrow>
            fst (proxyFetchFacebook p this url b m) = Rejected (NewError (error_message err)))
       \<and> (item \<noteq> JNull \<and> own item ''error'' = None \<and> own item ''hasOwnProperty'' = None \<longrightarrow>
            fst (proxyFetchFacebook p this url b m) = Resolved item)"
proof -
  have eq: "fst (proxyFetchFacebook p this url b m) =
      (case on_item item of Inl e \<Rightarrow> Rejected (on_catch e) | Inr v \<Rightarrow> Resolved v)"
    using assms by (simp add: proxyFetchFacebook_def settle_body)
  have null: "own JNull ''error'' = None" by simp
  show ?thesis
    unfolding eq using null
    by (auto simp add: on_item_def split: option.splits)
qed

text \<open>An error answer and a plain answer of the platform.\<close>

theorem proxyFetchFacebook_on_body_example:
  "fst (proxyFetchFacebook (answering (Body (JObj [(''error'', oauth_error)]))) fresh_client
         [Lit ''https://graph.facebook.com/v2.8/me/messages?access_token=TOKEN''] None ''POST'')
     = Rejected (NewError (Of (JStr ''Invalid OAuth access token.'')))
   \<and> fst (proxyFetchFacebook (answering (Body (JObj [(''recipient_id'', JStr ''1'')]))) fresh_client
         [Lit ''https://graph.facebook.com/v2.8/me/messages?access_token=TOKEN''] None ''POST'')
     = Resolved (JObj [(''recipient_id'', JStr ''1'')])"
proof -
  let ?u = "[Lit ''https://graph.facebook.com/v2.8/me/messages?access_token=TOKEN'']"
  let ?o = "\<lparr>http_method = ''POST'', headers = [(''Content-Type'', ''application/json'')],
              body = None, agent = proxyAgent fresh_client\<rparr>"
  let ?bad = "JObj [(''error'', oauth_error)]"
  let ?good = "JObj [(''recipient_id'', JStr ''1'')]"
  have 1: "fetch (answering (Body ?bad)) ?u ?o = Body ?bad" by (simp add: answering_def)
  have 2: "fetch (answering (Body ?good)) ?u ?o = Body ?good" by (simp add: answering_def)
  show ?thesis
    using proxyFetchFacebook_on_body [OF 1] proxyFetchFacebook_on_body [OF 2]
    by (simp add: oauth_error_def error_message_def)
qed

text \<open>
  Claim C8 as stated fails twice. The platform's error object, with its type and code, is
  not what the promise rejects with; and an object with no \<^verbatim>\<open>error\<close> field whose own
  \<^verbatim>\<open>hasOwnProperty\<close> shadows the inherited method does not resolve.
\<close>

theorem proxyFetchFacebook_not_as_claimed:
  "fst (proxyFetchFacebook (answering (Body (JObj [(''error'', oauth_error)]))) fresh_client
         [Lit ''https://graph.facebook.com/v2.8/me/messages?access_token=TOKEN''] None ''POST'')
     = Rejected (NewError (Of (JStr ''Invalid OAuth access token.'')))
   \<and> fst (proxyFetchFacebook (answering (Body (JObj [(''hasOwnProperty'', JBool True)])))
         fresh_client
         [Lit ''https://graph.facebook.com/v2.8/me/messages?access_token=TOKEN''] None ''POST'')
     \<noteq> Resolved (JObj [(''hasOwnProperty'', JBool True)])"
  by (simp add: proxyFetchFacebook_def settle_def on_item_def answering_def oauth_error_def
      error_message_def)

section \<open>Facts about the profile operations\<close>

text \<open>What \<^verbatim>\<open>validateMessengerProfile\<close> does, one case of lines 147 and 148 at a time.\<close>

lemma validateMessengerProfile_absent:
  "validateMessengerProfile p this None flag = (this, Inl (TypeError PropertyOfNull))"
  by (simp add: validateMessengerProfile_def)

lemma validateMessengerProfile_no_name:
  "constructor_name pr = Inl e \<Longrightarrow> validateMessengerProfile p this (Some pr) flag = (this, Inl e)"
  by (simp add: validateMessengerProfile_def)

lemma validateMessengerProfile_other_class:
  "constructor_name pr = Inr n \<Longrightarrow> \<not> oneOf p n [MessengerProfile_name p] \<Longrightarrow>
   validateMessengerProfile p this (Some pr) flag = (this, Inl ValidationError)"
  by (simp add: validateMessengerProfile_def)

lemma validateMessengerProfile_toObject_throws:
  "constructor_name pr = Inr n \<Longrightarrow> oneOf p n [MessengerProfile_name p] \<Longrightarrow>
   toObject pr = Inl e \<Longrightarrow>
   validateMessengerProfile p this (Some pr) flag = (this, Inl e)"
  by (simp add: validateMessengerProfile_def)

lemma validateMessengerProfile_assigned:
  "constructor_name pr = Inr n \<Longrightarrow> oneOf p n [MessengerProfile_name p] \<Longrightarrow>
   toObject pr = Inr v \<Longrightarrow>
   fst (validateMessengerProfile p this (Some pr) flag) = this\<lparr>messenger_profile := v\<rparr>"
  by (simp add: validateMessengerProfile_def Let_def split: sum.splits)

lemma validateMessengerProfile_frame:
  "baseURL (fst (validateMessengerProfile p this prof flag)) = baseURL this
   \<and> pageAccessToken (fst (validateMessengerProfile p this prof flag)) = pageAccessToken this
   \<and> proxyAgent (fst (validateMessengerProfile p this prof flag)) = proxyAgent this"
  by (simp add: validateMessengerProfile_def Let_def split: option.splits sum.splits)

text \<open>Each operation throws what the validation throws, and leaves the instance it leaves.\<close>

lemma operation_state:
  assumes "op \<in> {getMessengerProfile, setMessengerProfile, deleteMessengerProfile}"
  shows "\<exists>flag. fst (op p this prof) = fst (validateMessengerProfile p this prof flag)
           \<and> (\<forall>e. snd (validateMessengerProfile p this prof flag) = Inl e \<longrightarrow>
                  snd (op p this prof) = Inl e)"
proof -
  have g: "fst (getMessengerProfile p this prof) = fst (validateMessengerProfile p this prof True)
     \<and> (\<forall>e. snd (validateMessengerProfile p this prof True) = Inl e \<longrightarrow>
            snd (getMessengerProfile p this prof) = Inl e)"
    by (auto simp add: getMessengerProfile_def split: prod.splits sum.splits option.splits)
  have s: "fst (setMessengerProfile p this prof) = fst (validateMessengerProfile p this prof False)
     \<and> (\<forall>e. snd (validateMessengerProfile p this prof False) = Inl e \<longrightarrow>
            snd (setMessengerProfile p this prof) = Inl e)"
    by (auto simp add: setMessengerProfile_def split: prod.splits sum.splits)
  have d: "fst (deleteMessengerProfile p this prof) = fst (validateMessengerProfile p this prof True)
     \<and> (\<forall>e. snd (validateMessengerProfile p this prof True) = Inl e \<longrightarrow>
            snd (deleteMessengerProfile p this prof) = Inl e)"
    by (auto simp add: deleteMessengerProfile_def split: prod.splits sum.splits)
  from assms g s d show ?thesis by auto
qed

lemma operation_throws:
  assumes "op \<in> {getMessengerProfile, setMessengerProfile, deleteMessengerProfile}"
    and "\<And>flag. validateMessengerProfile p this prof flag = (this, Inl e)"
  shows "op p this prof = (this, Inl e)"
proof -
  from operation_state [OF assms(1), of p this prof] obtain flag where
    f: "fst (op p this prof) = fst (validateMessengerProfile p this prof flag)"
    and t: "\<forall>e. snd (validateMessengerProfile p this prof flag) = Inl e \<longrightarrow>
              snd (op p this prof) = Inl e"
    by blast
  from f assms(2) have "fst (op p this prof) = this" by simp
  moreover from t assms(2) have "snd (op p this prof) = Inl e" by simp
  ultimately show ?thesis by (simp add: prod_eq_iff)
qed

section \<open>The claim about the profile operations\<close>

text \<open>
  Claim C10, as amended. The claim: every call of \<^verbatim>\<open>getMessengerProfile\<close>,
  \<^verbatim>\<open>setMessengerProfile\<close> or \<^verbatim>\<open>deleteMessengerProfile\<close> overwrites the instance's
  \<^verbatim>\<open>messenger_profile\<close>, and no other field changes. For each of the three operations: a
  call without a profile throws a \<^verbatim>\<open>TypeError\<close>; a call whose
  \<^verbatim>\<open>profile.constructor.name\<close> cannot be evaluated throws what that evaluation throws; a
  call whose profile fails the class check of line 147 throws the error of
  \<^verbatim>\<open>validate.oneOf\<close>; a call whose profile passes that check but whose \<^verbatim>\<open>toObject()\<close>
  throws, throws that; and in these four cases the instance is as it was. In every other
  call \<^verbatim>\<open>messenger_profile\<close> is set to the value that \<^verbatim>\<open>toObject()\<close> returned, whatever the
  check of the keys does afterwards. \<^verbatim>\<open>baseURL\<close>, \<^verbatim>\<open>pageAccessToken\<close> and \<^verbatim>\<open>proxyAgent\<close>
  are the same after every call.
\<close>

theorem messenger_profile_written:
  assumes "op \<in> {getMessengerProfile, setMessengerProfile, deleteMessengerProfile}"
  shows "(prof = None \<longrightarrow> op p this prof = (this, Inl (TypeError PropertyOfNull)))
   \<and> (\<forall>pr e. prof = Some pr \<and> constructor_name pr = Inl e \<longrightarrow>
         op p this prof = (this, Inl e))
   \<and> (\<forall>pr n. prof = Some pr \<and> constructor_name pr = Inr n
         \<and> \<not> oneOf p n [MessengerProfile_name p] \<longrightarrow>
         op p this prof = (this, Inl ValidationError))
   \<and> (\<forall>pr n e. prof = Some pr \<and> constructor_name pr = Inr n
         \<and> oneOf p n [MessengerProfile_name p] \<and> toObject pr = Inl e \<longrightarrow>
         op p this prof = (this, Inl e))
   \<and> (\<forall>pr n v. prof = Some pr \<and> constructor_name pr = Inr n
         \<and> oneOf p n [MessengerProfile_name p] \<and> toObject pr = Inr v \<longrightarrow>
         fst (op p this prof) = this\<lparr>messenger_profile := v\<rparr>)
   \<and> baseURL (fst (op p this prof)) = baseURL this
   \<and> pageAccessToken (fst (op p this prof)) = pageAccessToken this
   \<and> proxyAgent (fst (op p this prof)) = proxyAgent this"
proof -
  note thr = operation_throws [OF assms, of p this prof]
  from operation_state [OF assms, of p this prof] obtain flag where
    f: "fst (op p this prof) = fst (validateMessengerProfile p this prof flag)"
    by blast
  have 1: "prof = None \<longrightarrow> op p this prof = (this, Inl (TypeError PropertyOfNull))"
    using thr validateMessengerProfile_absent by blast
  have 2: "\<forall>pr e. prof = Some pr \<and> constructor_name pr = Inl e \<longrightarrow>
         op p this prof = (this, Inl e)"
    using thr validateMessengerProfile_no_name by blast
  have 3: "\<forall>pr n. prof = Some pr \<and> constructor_name pr = Inr n
         \<and> \<not> oneOf p n [MessengerProfile_name p] \<longrightarrow>
         op p this prof = (this, Inl ValidationError)"
    using thr validateMessengerProfile_other_class by blast
  have 4: "\<forall>pr n e. prof = Some pr \<and> constructor_name pr = Inr n
         \<and> oneOf p n [MessengerProfile_name p] \<and> toObject pr = Inl e \<longrightarrow>
         op p this prof = (this, Inl e)"
    using thr validateMessengerProfile_toObject_throws by blast
  have 5: "\<forall>pr n v. prof = Some pr \<and> constructor_name pr = Inr n
         \<and> oneOf p n [MessengerProfile_name p] \<and> toObject pr = Inr v \<longrightarrow>
         fst (op p this prof) = this\<lparr>messenger_profile := v\<rparr>"
    using f validateMessengerProfile_assigned by metis
  have 6: "baseURL (fst (op p this prof)) = baseURL this
   \<and> pageAccessToken (fst (op p this prof)) = pageAccessToken this
   \<and> proxyAgent (fst (op p this prof)) = proxyAgent this"
    using f validateMessengerProfile_frame [of p this prof flag] by simp
  from 1 2 3 4 5 6 show ?thesis by blast
qed

text \<open>
  On a fresh client: the four calls that throw before the assignment, and two calls that
  write the field, the second of which then throws because \<^verbatim>\<open>fields\<close> is not a valid
  property for \<^verbatim>\<open>setMessengerProfile\<close>.
\<close>

theorem messenger_profile_written_example:
  "getMessengerProfile (answering (Body (JObj [(''data'', JArr [])]))) fresh_client None
     = (fresh_client, Inl (TypeError PropertyOfNull))
   \<and> getMessengerProfile (answering (Body (JObj [(''data'', JArr [])]))) fresh_client
         (Some bare_object)
     = (fresh_client, Inl (TypeError PropertyOfNull))
   \<and> deleteMessengerProfile (answering (Body (JObj [(''result'', JStr ''success'')])))
         fresh_client (Some plain_object)
     = (fresh_client, Inl ValidationError)
   \<and> setMessengerProfile (answering (Body (JObj [(''result'', JStr ''success'')])))
         fresh_client (Some namesake)
     = (fresh_client, Inl (TypeError NotAFunction))
   \<and> fst (getMessengerProfile (answering (Body (JObj [(''data'', JArr [])]))) fresh_client
         (Some greeting_fields))
     = fresh_client\<lparr>messenger_profile := Some (JObj [(''fields'', JArr [JStr ''greeting''])])\<rparr>
   \<and> setMessengerProfile (answering (Body (JObj [(''result'', JStr ''success'')])))
         fresh_client (Some greeting_fields)
     = (fresh_client\<lparr>messenger_profile := Some (JObj [(''fields'', JArr [JStr ''greeting''])])\<rparr>,
        Inl ValidationError)"
proof -
  let ?g = "answering (Body (JObj [(''data'', JArr [])]))"
  let ?s = "answering (Body (JObj [(''result'', JStr ''success'')]))"
  have g: "getMessengerProfile \<in> {getMessengerProfile, setMessengerProfile, deleteMessengerProfile}"
    and s: "setMessengerProfile \<in> {getMessengerProfile, setMessengerProfile, deleteMessengerProfile}"
    and d: "deleteMessengerProfile \<in> {getMessengerProfile, setMessengerProfile, deleteMessengerProfile}"
    by blast+
  have 1: "getMessengerProfile ?g fresh_client None = (fresh_client, Inl (TypeError PropertyOfNull))"
    using messenger_profile_written [OF g, of None ?g fresh_client] by simp
  have 2: "getMessengerProfile ?g fresh_client (Some bare_object)
      = (fresh_client, Inl (TypeError PropertyOfNull))"
    using messenger_profile_written [OF g, of "Some bare_object" ?g fresh_client]
    by (simp add: bare_object_def)
  have 3: "deleteMessengerProfile ?s fresh_client (Some plain_object)
      = (fresh_client, Inl ValidationError)"
    using messenger_profile_written [OF d, of "Some plain_object" ?s fresh_client]
    by (simp add: plain_object_def answering_def)
  have 4: "setMessengerProfile ?s fresh_client (Some namesake)
      = (fresh_client, Inl (TypeError NotAFunction))"
    using messenger_profile_written [OF s, of "Some namesake" ?s fresh_client]
    by (simp add: namesake_def answering_def)
  have 5: "fst (getMessengerProfile ?g fresh_client (Some greeting_fields))
      = fresh_client\<lparr>messenger_profile := Some (JObj [(''fields'', JArr [JStr ''greeting''])])\<rparr>"
    using messenger_profile_written [OF g, of "Some greeting_fields" ?g fresh_client]
    by (simp add: greeting_fields_def answering_def)
  have 6: "setMessengerProfile ?s fresh_client (Some greeting_fields)
      = (fresh_client\<lparr>messenger_profile := Some (JObj [(''fields'', JArr [JStr ''greeting''])])\<rparr>,
         Inl ValidationError)"
    by (simp add: setMessengerProfile_def validateMessengerProfile_def greeting_fields_def
        answering_def Let_def)
  from 1 2 3 4 5 6 show ?thesis by blast
qed

text \<open>
  Claim C10 as stated fails for a call without a profile: reading
  \<^verbatim>\<open>profile.constructor\<close> throws before line 148, and the instance is as it was. So it
  is after a call with an object of another class, which the check of line 147 refuses,
  and after a call with an object that passes that check by its name and has no
  \<^verbatim>\<open>toObject\<close>.
\<close>

theorem absent_profile_leaves_client:
  "getMessengerProfile (answering (Body (JObj [(''data'', JArr [])]))) fresh_client None
     = (fresh_client, Inl (TypeError PropertyOfNull))
   \<and> setMessengerProfile (answering (Body (JObj [(''data'', JArr [])]))) fresh_client None
     = (fresh_client, Inl (TypeError PropertyOfNull))
   \<and> deleteMessengerProfile (answering (Body (JObj [(''data'', JArr [])]))) fresh_client None
     = (fresh_client, Inl (TypeError PropertyOfNull))
   \<and> getMessengerProfile (answering (Body (JObj [(''data'', JArr [])]))) fresh_client
         (Some plain_object)
     = (fresh_client, Inl ValidationError)
   \<and> getMessengerProfile (answering (Body (JObj [(''data'', JArr [])]))) fresh_client
         (Some namesake)
     = (fresh_client, Inl (TypeError NotAFunction))"
  by (simp add: getMessengerProfile_def setMessengerProfile_def deleteMessengerProfile_def
      validateMessengerProfile_def answering_def plain_object_def namesake_def)

end
